theory Spec2Isabelle
  imports Complex_Main "HOL-Library.Log_Nat"
begin

section \<open>Data model\<close>

text \<open>
  The tables of the shop as the Django models declare them. Money columns are
  \<open>DecimalField(..., decimal_places=2)\<close>: a value is kept as its integer number of
  hundredths, so \<open>1000.00\<close> is \<open>100000\<close>. Quantities are Python integers.
\<close>

record product =
  p_name :: string
  price :: int
  stock_quantity :: int
  is_available :: bool

record cart_item =
  ci_user :: nat
  ci_product :: nat
  ci_quantity :: int

datatype order_status =
  Pending | Processing | Shipped | Delivered | Completed | Refunded | Cancelled

record order =
  o_user :: nat
  total_amount :: int
  o_status :: order_status

record order_item =
  oi_order :: nat
  oi_product :: nat
  oi_quantity :: int
  price_at_purchase :: int

datatype tx_status = Tx_Success | Tx_Failed | Tx_Refunded | Tx_Pending

text \<open>
  The amount of a transaction is what the caller passed to \<open>create_payment\<close>: a Python
  \<open>Decimal\<close> or \<open>float\<close>, that is some finite rational number.
\<close>

record payment_tx =
  t_order :: nat
  t_amount :: rat
  payment_method :: string
  t_status :: tx_status

datatype log_level = INFO | WARNING | ERROR

record log_entry =
  level :: log_level
  action :: string

text \<open>
  What a \<open>ValueError\<close> of the services says. The source formats Russian sentences; the
  model keeps which sentence it is and the values put into it.
\<close>

datatype message =
    CartEmpty
  | ProductUnavailable string
  | InsufficientStock string int int
  | NotEnoughStock int int
  | AmountMismatch rat int
  | OrderNotFound nat
  | OrderCreationFailed
  | PaymentFailed
  | RefundFailed
  | NotRefundable nat
  | TransactionNotFound nat

datatype error =
    ValueError "message list"
  | IntegrityError
  | DatabaseError
  | InvalidOperation
  | DoesNotExist

text \<open>
  The database. Tables with a looked-up primary key are maps from the key; the other
  tables are lists of rows in the order the queries return them. The two counters are
  the sequences behind \<open>orders.id\<close> and \<open>transactions.id\<close>.
\<close>

record db =
  products :: "nat \<rightharpoonup> product"
  cart_items :: "cart_item list"
  orders :: "nat \<rightharpoonup> order"
  order_items :: "order_item list"
  transactions :: "nat \<rightharpoonup> payment_tx"
  logs :: "log_entry list"
  order_seq :: nat
  tx_seq :: nat

section \<open>Stock ledger: \<open>Product.decrease_stock\<close> and \<open>Product.increase_stock\<close>\<close>

text \<open>
  Both methods change the instance and save the two columns. A raise leaves the instance
  as it was, so the result is the outcome together with the instance afterwards. Stock
  is a Python integer here; the 32-bit range of the column, which a save beyond it would
  be refused for, is not modelled.
\<close>

definition decrease_stock :: "int \<Rightarrow> product \<Rightarrow> (error + unit) \<times> product" where
  "decrease_stock quantity p =
     (if stock_quantity p < quantity
      then (Inl (ValueError [NotEnoughStock (stock_quantity p) quantity]), p)
      else
        (let p1 = p\<lparr>stock_quantity := stock_quantity p - quantity\<rparr>;
             p2 = (if stock_quantity p1 = 0 then p1\<lparr>is_available := False\<rparr> else p1)
         in (Inr (), p2)))"

definition increase_stock :: "int \<Rightarrow> product \<Rightarrow> product" where
  "increase_stock quantity p =
     (let p1 = p\<lparr>stock_quantity := stock_quantity p + quantity\<rparr>
      in if \<not> is_available p1 then p1\<lparr>is_available := True\<rparr> else p1)"

section \<open>Transactions of the database\<close>

text \<open>
  \<open>@transaction.atomic\<close>: when the decorated function raises, every row it wrote is
  rolled back. Sequences are not transactional in PostgreSQL, so a number that was drawn
  stays drawn. The session settings of \<open>set_current_user_id\<close> and \<open>set_current_role\<close>
  are local to the transaction and touch no table; they are left out.
\<close>

definition rollback :: "db \<Rightarrow> db \<Rightarrow> db" where
  "rollback s s' = s\<lparr>order_seq := order_seq s', tx_seq := tx_seq s'\<rparr>"

definition atomic :: "(db \<Rightarrow> (error + 'a) \<times> db) \<Rightarrow> db \<Rightarrow> (error + 'a) \<times> db" where
  "atomic f s =
     (case f s of
        (Inl e, s') \<Rightarrow> (Inl e, rollback s s')
      | (Inr v, s') \<Rightarrow> (Inr v, s'))"

definition add_log :: "log_level \<Rightarrow> string \<Rightarrow> db \<Rightarrow> db" where
  "add_log l a s = s\<lparr>logs := logs s @ [\<lparr>level = l, action = a\<rparr>]\<rparr>"

text \<open>
  A stored procedure of the database, called through \<open>cursor.callproc\<close>: it raises, or
  \<open>fetchone\<close> gives a row or nothing. The procedures themselves are not part of the
  Python sources, so a service takes the procedure it would call as an argument;
  \<open>None\<close> stands for a database without it (\<open>_procedure_exists\<close> is false).
\<close>

type_synonym 'r stored_proc = "db \<Rightarrow> (error + 'r option) \<times> db"

section \<open>Cart: \<open>CartService.get_cart\<close> and \<open>CartService.validate_cart\<close>\<close>

definition user_cart_rows :: "nat \<Rightarrow> db \<Rightarrow> cart_item list" where
  "user_cart_rows u s = filter (\<lambda>c. ci_user c = u) (cart_items s)"

text \<open>
  \<open>select_related('product')\<close> joins every cart row with its product row as it is
  when the query runs; the loops below read the product from this join.
\<close>

definition get_cart :: "nat \<Rightarrow> db \<Rightarrow> (cart_item \<times> product) list" where
  "get_cart u s =
     List.map_filter (\<lambda>c. map_option (Pair c) (products s (ci_product c)))
       (user_cart_rows u s)"

fun line_errors :: "cart_item \<times> product \<Rightarrow> message list" where
  "line_errors (item, product) =
     (if \<not> is_available product then [ProductUnavailable (p_name product)]
      else if stock_quantity product < ci_quantity item
      then [InsufficientStock (p_name product) (ci_quantity item) (stock_quantity product)]
      else [])"

definition validate_cart :: "nat \<Rightarrow> db \<Rightarrow> bool \<times> message list" where
  "validate_cart u s =
     (if user_cart_rows u s = [] then (False, [CartEmpty])
      else (let errors = concat (map line_errors (get_cart u s))
            in (errors = [], errors)))"

section \<open>Order creation: \<open>_create_order_from_cart_python\<close> and \<open>OrderService\<close>\<close>

definition orders_create :: "nat \<Rightarrow> int \<Rightarrow> order_status \<Rightarrow> db \<Rightarrow> (error + nat) \<times> db" where
  "orders_create u tot st s =
     (let oid = order_seq s; s1 = s\<lparr>order_seq := Suc oid\<rparr>
      in if orders s oid \<noteq> None then (Inl IntegrityError, s1)
         else (Inr oid,
               s1\<lparr>orders := (orders s)(oid \<mapsto>
                     \<lparr>o_user = u, total_amount = tot, o_status = st\<rparr>)\<rparr>))"

text \<open>\<open>Product.objects.filter(pk=...).update(stock_quantity=...)\<close>: one column of one row.\<close>

definition update_stock_quantity ::
  "nat \<Rightarrow> int \<Rightarrow> (nat \<rightharpoonup> product) \<Rightarrow> (nat \<rightharpoonup> product)" where
  "update_stock_quantity pk v m =
     (case m pk of None \<Rightarrow> m | Some row \<Rightarrow> m(pk \<mapsto> row\<lparr>stock_quantity := v\<rparr>))"

definition new_order_item :: "nat \<Rightarrow> cart_item \<times> product \<Rightarrow> order_item" where
  "new_order_item oid line =
     \<lparr>oi_order = oid, oi_product = ci_product (fst line),
      oi_quantity = ci_quantity (fst line), price_at_purchase = price (snd line)\<rparr>"

text \<open>The \<open>for item in cart_items\<close> loop, with the running \<open>total_amount\<close>.\<close>

fun order_lines ::
  "nat \<Rightarrow> (cart_item \<times> product) list \<Rightarrow> int \<Rightarrow> db \<Rightarrow> (error + int) \<times> db" where
  "order_lines oid [] tot s = (Inr tot, s)"
| "order_lines oid ((item, product) # rest) tot s =
     (if stock_quantity product < ci_quantity item
      then (Inl (ValueError [InsufficientStock (p_name product) (ci_quantity item)
                               (stock_quantity product)]), s)
      else
        (let subtotal = price product * ci_quantity item;
             s1 = s\<lparr>order_items := order_items s @ [new_order_item oid (item, product)]\<rparr>;
             s2 = s1\<lparr>products :=
                    update_stock_quantity (ci_product item)
                      (stock_quantity product - ci_quantity item) (products s1)\<rparr>
         in order_lines oid rest (tot + subtotal) s2))"

text \<open>\<open>order.delete()\<close>: the row and, by \<open>on_delete=CASCADE\<close>, its items and transactions.\<close>

definition order_delete :: "nat \<Rightarrow> db \<Rightarrow> db" where
  "order_delete oid s =
     s\<lparr>orders := (orders s)(oid := None),
       order_items := filter (\<lambda>i. oi_order i \<noteq> oid) (order_items s),
       transactions := (\<lambda>t. case transactions s t of
                               None \<Rightarrow> None
                             | Some x \<Rightarrow> if t_order x = oid then None else Some x)\<rparr>"

text \<open>
  \<open>order.save(update_fields=['total_amount'])\<close>. The column is \<open>numeric(14, 2)\<close>: a
  value of more than fourteen digits is refused. An update that finds no row raises.
  \<open>InvalidOperation\<close> stands for the refusal whatever its Python class is: PostgreSQL
  reports a \<open>DataError\<close>, and inside the transaction the \<open>order.delete()\<close> of the
  handler then fails in turn, so that the error leaving the call is that second one.
\<close>

definition order_save_total :: "nat \<Rightarrow> int \<Rightarrow> db \<Rightarrow> (error + unit) \<times> db" where
  "order_save_total oid tot s =
     (if 10 ^ 14 \<le> \<bar>tot\<bar> then (Inl InvalidOperation, s)
      else case orders s oid of
             None \<Rightarrow> (Inl DatabaseError, s)
           | Some row \<Rightarrow> (Inr (), s\<lparr>orders := (orders s)(oid \<mapsto> row\<lparr>total_amount := tot\<rparr>)\<rparr>))"

text \<open>
  \<open>CartItem.objects.filter(user=user).delete()\<close> runs on the cart table as it is when the
  statement runs. \<open>arrivals\<close> are the cart rows that other requests have committed since
  line 36 read the cart (none when the call runs alone); under the default isolation of
  PostgreSQL the delete statement sees them.
\<close>

definition create_order_from_cart_python ::
  "cart_item list \<Rightarrow> nat \<Rightarrow> db \<Rightarrow> (error + nat \<times> int) \<times> db" where
  "create_order_from_cart_python arrivals u s =
     (let cart = get_cart u s
      in if cart = [] then (Inl (ValueError [CartEmpty]), s)
         else
           (case orders_create u 0 Pending s of
              (Inl e, s0) \<Rightarrow> (Inl e, s0)
            | (Inr oid, s0) \<Rightarrow>
                (case order_lines oid cart 0 s0 of
                   (Inl e, s1) \<Rightarrow> (Inl e, order_delete oid s1)
                 | (Inr tot, s1) \<Rightarrow>
                     (case order_save_total oid tot s1 of
                        (Inl e, s2) \<Rightarrow> (Inl e, order_delete oid s2)
                      | (Inr _, s2) \<Rightarrow>
                          (Inr (oid, tot),
                           s2\<lparr>cart_items :=
                                filter (\<lambda>c. ci_user c \<noteq> u) (arrivals @ cart_items s2)\<rparr>)))))"

definition create_order_from_cart_body ::
  "(nat \<Rightarrow> (nat \<times> int) stored_proc) option \<Rightarrow> cart_item list \<Rightarrow> nat \<Rightarrow> db
     \<Rightarrow> (error + nat \<times> int) \<times> db" where
  "create_order_from_cart_body proc arrivals u s =
     (case validate_cart u s of
        (False, errors) \<Rightarrow> (Inl (ValueError errors), s)
      | (True, _) \<Rightarrow>
          (case proc of
             None \<Rightarrow>
               (case create_order_from_cart_python arrivals u s of
                  (Inl e, s1) \<Rightarrow> (Inl e, s1)
                | (Inr (oid, tot), s1) \<Rightarrow>
                    (Inr (oid, tot), add_log INFO ''order_created'' s1))
           | Some f \<Rightarrow>
               (case f u s of
                  (Inl e, s1) \<Rightarrow> (Inl e, add_log ERROR ''order_creation_failed'' s1)
                | (Inr None, s1) \<Rightarrow>
                    (Inl (ValueError [OrderCreationFailed]),
                     add_log ERROR ''order_creation_failed'' s1)
                | (Inr (Some (oid, tot)), s1) \<Rightarrow>
                    (let s2 = add_log INFO ''order_created'' s1
                     in case orders s2 oid of
                          None \<Rightarrow> (Inl DoesNotExist, add_log ERROR ''order_creation_failed'' s2)
                        | Some _ \<Rightarrow> (Inr (oid, tot), s2)))))"

definition create_order_from_cart ::
  "(nat \<Rightarrow> (nat \<times> int) stored_proc) option \<Rightarrow> cart_item list \<Rightarrow> nat \<Rightarrow> db
     \<Rightarrow> (error + nat \<times> int) \<times> db" where
  "create_order_from_cart proc arrivals u = atomic (create_order_from_cart_body proc arrivals u)"

section \<open>Payment: \<open>PaymentService.create_payment\<close>\<close>

text \<open>
  The service compares \<open>float(amount)\<close> with \<open>float(order.total_amount)\<close>. Python's
  \<open>float\<close> of a decimal is the IEEE 754 binary64 number nearest to it, ties going to the
  even significand. Binary64 numbers are the multiples of \<open>2 ^ e\<close> with a significand
  below \<open>2 ^ 53\<close> and \<open>e\<close> at least \<open>- 1074\<close>; a result of \<open>2 ^ 1024\<close> or more is
  infinite. \<open>nearest_double\<close> rounds a non-negative rational: it scales by \<open>2 ^ 1074\<close>,
  drops the \<open>s\<close> low bits that do not fit the significand, and scales back.
\<close>

definition round_half_even :: "rat \<Rightarrow> int" where
  "round_half_even x =
     (let f = \<lfloor>x\<rfloor>; d = x - of_int f
      in if d < 1 / 2 then f else if 1 / 2 < d then f + 1 else if even f then f else f + 1)"

definition nearest_double :: "rat \<Rightarrow> rat" where
  "nearest_double x =
     (let t = x * 2 ^ 1074; s = nat (bitlen \<lfloor>t\<rfloor> - 53)
      in of_int (round_half_even (t / 2 ^ s)) * 2 ^ s / 2 ^ 1074)"

datatype pyfloat = Finite rat | PosInf | NegInf

definition py_float :: "rat \<Rightarrow> pyfloat" where
  "py_float x =
     (let r = nearest_double \<bar>x\<bar>
      in if 2 ^ 1024 \<le> r then (if x < 0 then NegInf else PosInf)
         else Finite (if x < 0 then - r else r))"

text \<open>\<open>Order.can_be_paid\<close>, the test that \<open>create_payment_view\<close> makes before it calls the service.\<close>

definition can_be_paid :: "order \<Rightarrow> bool" where
  "can_be_paid row = (o_status row = Pending \<or> o_status row = Cancelled)"

text \<open>
  \<open>Transaction.objects.create\<close>. The row keeps the amount as the caller passed it; the
  rounding of the \<open>numeric(14, 2)\<close> column is not modelled.
\<close>

definition transactions_create ::
  "nat \<Rightarrow> rat \<Rightarrow> string \<Rightarrow> tx_status \<Rightarrow> db \<Rightarrow> (error + nat) \<times> db" where
  "transactions_create oid amount method st s =
     (let tid = tx_seq s; s1 = s\<lparr>tx_seq := Suc tid\<rparr>
      in if transactions s tid \<noteq> None then (Inl IntegrityError, s1)
         else (Inr tid,
               s1\<lparr>transactions := (transactions s)(tid \<mapsto>
                     \<lparr>t_order = oid, t_amount = amount, payment_method = method,
                      t_status = st\<rparr>)\<rparr>))"

text \<open>
  The result is the id of the transaction, if there is one, and the status text. The
  \<open>user\<close> argument only names the author of the log rows and is left out, and so is
  the invalidation of the analytics cache, which touches no table.
\<close>

definition create_payment_body ::
  "(nat \<Rightarrow> rat \<Rightarrow> string \<Rightarrow> (nat option \<times> string) stored_proc) option
     \<Rightarrow> nat \<Rightarrow> rat \<Rightarrow> string \<Rightarrow> db \<Rightarrow> (error + nat option \<times> string) \<times> db" where
  "create_payment_body proc order_id amount method s =
     (case orders s order_id of
        None \<Rightarrow> (Inl (ValueError [OrderNotFound order_id]), s)
      | Some row \<Rightarrow>
          if py_float amount \<noteq> py_float (of_int (total_amount row) / 100)
          then (Inl (ValueError [AmountMismatch amount (total_amount row)]),
                add_log WARNING ''payment_validation_failed'' s)
          else
            (case proc of
               None \<Rightarrow>
                 (case transactions_create order_id amount method Tx_Success s of
                    (Inl e, s1) \<Rightarrow> (Inl e, s1)
                  | (Inr tid, s1) \<Rightarrow>
                      (Inr (Some tid, ''Success''),
                       add_log INFO ''payment_processed''
                         (s1\<lparr>orders := (orders s1)(order_id \<mapsto> row\<lparr>o_status := Completed\<rparr>)\<rparr>)))
             | Some f \<Rightarrow>
                 (case f order_id amount method s of
                    (Inl e, s1) \<Rightarrow> (Inl e, add_log ERROR ''payment_failed'' s1)
                  | (Inr None, s1) \<Rightarrow>
                      (Inl (ValueError [PaymentFailed]), add_log ERROR ''payment_failed'' s1)
                  | (Inr (Some (tid, status)), s1) \<Rightarrow>
                      (let s2 = add_log (if status = ''Success'' then INFO else ERROR)
                                  ''payment_processed'' s1
                       in case tid of
                            None \<Rightarrow> (Inr (None, status), s2)
                          | Some i \<Rightarrow>
                              (case transactions s2 i of
                                 None \<Rightarrow> (Inl DoesNotExist, add_log ERROR ''payment_failed'' s2)
                               | Some _ \<Rightarrow> (Inr (Some i, status), s2))))))"

definition create_payment ::
  "(nat \<Rightarrow> rat \<Rightarrow> string \<Rightarrow> (nat option \<times> string) stored_proc) option
     \<Rightarrow> nat \<Rightarrow> rat \<Rightarrow> string \<Rightarrow> db \<Rightarrow> (error + nat option \<times> string) \<times> db" where
  "create_payment proc order_id amount method =
     atomic (create_payment_body proc order_id amount method)"

section \<open>Refund: \<open>PaymentService.refund_transaction\<close>\<close>

text \<open>\<open>Transaction.can_be_refunded\<close>.\<close>

definition can_be_refunded :: "payment_tx \<Rightarrow> bool" where
  "can_be_refunded tx = (t_status tx = Tx_Success)"

text \<open>
  The service has no Python implementation of the refund: it calls the stored procedure
  and logs the outcome.
\<close>

definition refund_transaction_body ::
  "(nat \<Rightarrow> string stored_proc) \<Rightarrow> nat \<Rightarrow> db \<Rightarrow> (error + string) \<times> db" where
  "refund_transaction_body proc transaction_id s =
     (case proc transaction_id s of
        (Inl e, s1) \<Rightarrow> (Inl e, add_log ERROR ''refund_failed'' s1)
      | (Inr None, s1) \<Rightarrow>
          (Inl (ValueError [RefundFailed]), add_log ERROR ''refund_failed'' s1)
      | (Inr (Some msg), s1) \<Rightarrow> (Inr msg, add_log INFO ''transaction_refunded'' s1))"

definition refund_transaction ::
  "(nat \<Rightarrow> string stored_proc) \<Rightarrow> nat \<Rightarrow> db \<Rightarrow> (error + string) \<times> db" where
  "refund_transaction proc transaction_id = atomic (refund_transaction_body proc transaction_id)"

text \<open>The release of the stock ledger on a product row: \<open>Product.increase_stock\<close>.\<close>

definition release_stock :: "order_item \<Rightarrow> (nat \<rightharpoonup> product) \<Rightarrow> (nat \<rightharpoonup> product)" where
  "release_stock line m =
     (case m (oi_product line) of
        None \<Rightarrow> m
      | Some row \<Rightarrow> m(oi_product line \<mapsto> increase_stock (oi_quantity line) row))"

text \<open>
  Modelled from the spec: the stored procedure \<open>refund_transaction\<close> of the database,
  which the Python sources only call. The spec (4.4): only a transaction with status
  Success may be refunded, otherwise the call fails as not refundable; on success the
  transaction becomes Refunded, its order becomes Refunded, and the stock ledger releases
  the quantity of every line of that order.
\<close>

definition refund_transaction_proc :: "nat \<Rightarrow> string stored_proc" where
  "refund_transaction_proc transaction_id s =
     (case transactions s transaction_id of
        None \<Rightarrow> (Inl (ValueError [TransactionNotFound transaction_id]), s)
      | Some tx \<Rightarrow>
          if t_status tx \<noteq> Tx_Success
          then (Inl (ValueError [NotRefundable transaction_id]), s)
          else
            (Inr (Some ''refunded''),
             s\<lparr>transactions := (transactions s)(transaction_id \<mapsto> tx\<lparr>t_status := Tx_Refunded\<rparr>),
               orders :=
                 (case orders s (t_order tx) of
                    None \<Rightarrow> orders s
                  | Some row \<Rightarrow> (orders s)(t_order tx \<mapsto> row\<lparr>o_status := Refunded\<rparr>)),
               products :=
                 fold release_stock
                   (filter (\<lambda>line. oi_order line = t_order tx) (order_items s))
                   (products s)\<rparr>))"

section \<open>Example databases\<close>

definition ball :: product where
  "ball = \<lparr>p_name = ''Ball'', price = 100000, stock_quantity = 10, is_available = True\<rparr>"

definition net :: product where
  "net = \<lparr>p_name = ''Net'', price = 2550, stock_quantity = 2, is_available = True\<rparr>"

definition empty_db :: db where
  "empty_db =
     \<lparr>products = Map.empty, cart_items = [], orders = Map.empty, order_items = [],
      transactions = Map.empty, logs = [], order_seq = 11, tx_seq = 21\<rparr>"

definition shop :: db where
  "shop =
     empty_db\<lparr>products := [3 \<mapsto> ball, 4 \<mapsto> net],
              cart_items := [\<lparr>ci_user = 7, ci_product = 3, ci_quantity = 2\<rparr>,
                             \<lparr>ci_user = 8, ci_product = 4, ci_quantity = 1\<rparr>]\<rparr>"

definition late_line :: cart_item where
  "late_line = \<lparr>ci_user = 7, ci_product = 4, ci_quantity = 1\<rparr>"

definition bulk_shop :: db where
  "bulk_shop =
     empty_db\<lparr>products := [5 \<mapsto> \<lparr>p_name = ''Yacht'', price = 999999999999,
                                   stock_quantity = 500, is_available = True\<rparr>],
              cart_items := [\<lparr>ci_user = 7, ci_product = 5, ci_quantity = 200\<rparr>]\<rparr>"

definition last_units :: db where
  "last_units =
     empty_db\<lparr>products := [4 \<mapsto> net],
              cart_items := [\<lparr>ci_user = 7, ci_product = 4, ci_quantity = 2\<rparr>]\<rparr>"

definition withdrawn :: db where
  "withdrawn =
     empty_db\<lparr>products := [3 \<mapsto> ball\<lparr>is_available := False\<rparr>],
              cart_items := [\<lparr>ci_user = 7, ci_product = 3, ci_quantity = 2\<rparr>]\<rparr>"

definition contested :: db where
  "contested =
     empty_db\<lparr>products := [3 \<mapsto> ball],
              cart_items := [\<lparr>ci_user = 7, ci_product = 3, ci_quantity = 6\<rparr>,
                             \<lparr>ci_user = 8, ci_product = 3, ci_quantity = 6\<rparr>]\<rparr>"

definition pending_order :: db where
  "pending_order =
     empty_db\<lparr>products := [3 \<mapsto> ball\<lparr>stock_quantity := 8\<rparr>],
              orders := [11 \<mapsto> \<lparr>o_user = 7, total_amount = 100000, o_status = Pending\<rparr>],
              order_items := [\<lparr>oi_order = 11, oi_product = 3, oi_quantity = 2,
                               price_at_purchase = 50000\<rparr>],
              order_seq := 12\<rparr>"

definition paid_order :: db where
  "paid_order =
     pending_order\<lparr>orders := [11 \<mapsto> \<lparr>o_user = 7, total_amount = 100000, o_status = Completed\<rparr>],
                   transactions := [20 \<mapsto> \<lparr>t_order = 11, t_amount = 1000,
                                            payment_method = ''Card'', t_status = Tx_Success\<rparr>]\<rparr>"

section \<open>Stock ledger: properties\<close>

lemma decrease_stock_ok:
  "quantity \<le> stock_quantity p \<Longrightarrow>
     fst (decrease_stock quantity p) = Inr () \<and>
     stock_quantity (snd (decrease_stock quantity p)) = stock_quantity p - quantity"
  by (simp add: decrease_stock_def Let_def)

lemma decrease_stock_fail:
  "stock_quantity p < quantity \<Longrightarrow>
     decrease_stock quantity p =
       (Inl (ValueError [NotEnoughStock (stock_quantity p) quantity]), p)"
  by (simp add: decrease_stock_def)

lemma decrease_stock_clears_flag:
  "decrease_stock q p = (Inr (), p') \<Longrightarrow> stock_quantity p' = 0 \<Longrightarrow> \<not> is_available p'"
  by (auto simp: decrease_stock_def Let_def split: if_splits)

lemma increase_stock_sets_flag: "is_available (increase_stock q p)"
  by (simp add: increase_stock_def Let_def)

text \<open>
  The stock step of order creation decides on the product as the cart query read it and
  writes that stock less the quantity, whatever the row holds by then.
\<close>

lemma order_line_refused:
  "\<not> ci_quantity item \<le> stock_quantity p \<Longrightarrow>
     order_lines oid [(item, p)] t s =
       (Inl (ValueError [InsufficientStock (p_name p) (ci_quantity item) (stock_quantity p)]), s)"
  by simp

lemma order_line_writes_from_snapshot:
  assumes "ci_quantity item \<le> stock_quantity p" and "products s (ci_product item) = Some row"
  shows "fst (order_lines oid [(item, p)] t s) = Inr (t + price p * ci_quantity item)"
    and "products (snd (order_lines oid [(item, p)] t s)) (ci_product item) =
           Some (row\<lparr>stock_quantity := stock_quantity p - ci_quantity item\<rparr>)"
  using assms by (simp_all add: Let_def update_stock_quantity_def)

section \<open>Order creation: properties\<close>

lemma rollback_same [simp]: "rollback s s = s"
  by (simp add: rollback_def)

lemma rollback_tables [simp]:
  "products (rollback s s') = products s"
  "cart_items (rollback s s') = cart_items s"
  "orders (rollback s s') = orders s"
  "order_items (rollback s s') = order_items s"
  "transactions (rollback s s') = transactions s"
  "logs (rollback s s') = logs s"
  by (simp_all add: rollback_def)

lemma atomic_Inl: "f s = (Inl e, s1) \<Longrightarrow> atomic f s = (Inl e, rollback s s1)"
  by (simp add: atomic_def)

lemma atomic_Inr: "f s = (Inr v, s1) \<Longrightarrow> atomic f s = (Inr v, s1)"
  by (simp add: atomic_def)

lemma atomic_Inl_D: "atomic f s = (Inl e, s') \<Longrightarrow> \<exists>s1. f s = (Inl e, s1) \<and> s' = rollback s s1"
  by (auto simp: atomic_def split: prod.splits sum.splits)

lemma atomic_Inr_D: "atomic f s = (Inr v, s') \<Longrightarrow> f s = (Inr v, s')"
  by (auto simp: atomic_def split: prod.splits sum.splits)

lemma order_lines_ok:
  "order_lines oid cart t s = (Inr tot, s') \<Longrightarrow>
     tot = t + (\<Sum>line\<leftarrow>cart. price (snd line) * ci_quantity (fst line)) \<and>
     order_items s' = order_items s @ map (new_order_item oid) cart \<and>
     orders s' = orders s \<and> cart_items s' = cart_items s \<and>
     transactions s' = transactions s \<and> logs s' = logs s"
proof (induction cart arbitrary: t s)
  case Nil
  then show ?case by simp
next
  case (Cons line rest)
  obtain item product where line: "line = (item, product)" by (cases line)
  from Cons.prems line have enough: "\<not> stock_quantity product < ci_quantity item"
    by (auto split: if_splits)
  define s2 where "s2 = s\<lparr>order_items := order_items s @ [new_order_item oid (item, product)],
      products := update_stock_quantity (ci_product item)
                      (stock_quantity product - ci_quantity item) (products s)\<rparr>"
  from Cons.prems line enough
  have "order_lines oid rest (t + price product * ci_quantity item) s2 = (Inr tot, s')"
    by (simp add: Let_def s2_def)
  from Cons.IH [OF this] show ?case
    by (simp add: line s2_def)
qed

lemma python_ok:
  assumes "create_order_from_cart_python arrivals u s = (Inr (oid, tot), s')"
  shows "orders s oid = None"
    and "orders s' = (orders s)(oid \<mapsto> \<lparr>o_user = u, total_amount = tot, o_status = Pending\<rparr>)"
    and "tot = (\<Sum>line\<leftarrow>get_cart u s. price (snd line) * ci_quantity (fst line))"
    and "order_items s' = order_items s @ map (new_order_item oid) (get_cart u s)"
    and "cart_items s' = filter (\<lambda>c. ci_user c \<noteq> u) (arrivals @ cart_items s)"
    and "transactions s' = transactions s"
    and "logs s' = logs s"
proof -
  from assms obtain s0 s1 s2 where
    c: "orders_create u 0 Pending s = (Inr oid, s0)"
    and l: "order_lines oid (get_cart u s) 0 s0 = (Inr tot, s1)"
    and sv: "order_save_total oid tot s1 = (Inr (), s2)"
    and s': "s' = s2\<lparr>cart_items := filter (\<lambda>c. ci_user c \<noteq> u) (arrivals @ cart_items s2)\<rparr>"
    by (auto simp: create_order_from_cart_python_def Let_def
             split: if_splits prod.splits sum.splits)
  from c have s0: "orders s oid = None"
      "s0 = s\<lparr>order_seq := Suc (order_seq s),
              orders := (orders s)(oid \<mapsto> \<lparr>o_user = u, total_amount = 0, o_status = Pending\<rparr>)\<rparr>"
    by (auto simp: orders_create_def Let_def split: if_splits)
  note L = order_lines_ok [OF l]
  from sv L s0 have s2: "s2 = s1\<lparr>orders := (orders s1)(oid \<mapsto>
        \<lparr>o_user = u, total_amount = tot, o_status = Pending\<rparr>)\<rparr>"
    by (auto simp: order_save_total_def split: if_splits option.splits)
  show "orders s oid = None" using s0 by simp
  show "orders s' = (orders s)(oid \<mapsto> \<lparr>o_user = u, total_amount = tot, o_status = Pending\<rparr>)"
    using s' s2 L s0 by simp
  show "tot = (\<Sum>line\<leftarrow>get_cart u s. price (snd line) * ci_quantity (fst line))"
    using L by simp
  show "order_items s' = order_items s @ map (new_order_item oid) (get_cart u s)"
    using s' s2 L s0 by simp
  show "cart_items s' = filter (\<lambda>c. ci_user c \<noteq> u) (arrivals @ cart_items s)"
    using s' s2 L s0 by simp
  show "transactions s' = transactions s" using s' s2 L s0 by simp
  show "logs s' = logs s" using s' s2 L s0 by simp
qed

lemma service_ok_python:
  "create_order_from_cart None arrivals u s = (Inr (oid, tot), s') \<Longrightarrow>
     \<exists>s1. create_order_from_cart_python arrivals u s = (Inr (oid, tot), s1)
          \<and> s' = add_log INFO ''order_created'' s1"
  by (auto simp: create_order_from_cart_def create_order_from_cart_body_def
           dest!: atomic_Inr_D split: prod.splits sum.splits bool.splits)

lemmas order_defs =
  create_order_from_cart_def atomic_def create_order_from_cart_body_def validate_cart_def
  create_order_from_cart_python_def get_cart_def user_cart_rows_def orders_create_def
  order_save_total_def order_delete_def new_order_item_def update_stock_quantity_def
  add_log_def rollback_def List.map_filter_simps Let_def

lemmas example_defs =
  empty_db_def shop_def late_line_def bulk_shop_def last_units_def withdrawn_def ball_def net_def
  pending_order_def paid_order_def contested_def

text \<open>
  C1. When \<open>create_order_from_cart\<close> fails, whatever the reason (an empty or invalid
  cart, a line without enough stock, an error of the database after some lines were
  written, a failing stored procedure), no row it wrote remains: products and their
  stock, orders, order lines, cart, transactions and log are what they were before the
  call.
\<close>

theorem failed_order_creation_leaves_no_trace:
  "create_order_from_cart proc arrivals u s = (Inl e, s') \<Longrightarrow>
     products s' = products s \<and> orders s' = orders s \<and> order_items s' = order_items s \<and>
     cart_items s' = cart_items s \<and> transactions s' = transactions s \<and> logs s' = logs s"
  unfolding create_order_from_cart_def by (auto dest!: atomic_Inl_D)

text \<open>
  An order of 200 units at 9999999999.99 overflows the \<open>total_amount\<close> column after
  the order line was written and the stock was taken. The Python fallback alone removes
  the order but leaves the stock at 300; the enclosing transaction restores it.
\<close>

lemma bulk_fails: "create_order_from_cart None [] 7 bulk_shop = (Inl InvalidOperation, bulk_shop\<lparr>order_seq := 12\<rparr>)"
  by (simp add: order_defs example_defs)

lemma bulk_python:
  "fst (create_order_from_cart_python [] 7 bulk_shop) = Inl InvalidOperation \<and>
   map_option stock_quantity (products (snd (create_order_from_cart_python [] 7 bulk_shop)) 5) = Some 300"
  by (simp add: order_defs example_defs)

theorem failed_order_creation_leaves_no_trace_witness:
  "create_order_from_cart None [] 7 bulk_shop = (Inl InvalidOperation, bulk_shop\<lparr>order_seq := 12\<rparr>) \<and>
   products (bulk_shop\<lparr>order_seq := 12\<rparr>) = products bulk_shop \<and>
   orders (bulk_shop\<lparr>order_seq := 12\<rparr>) = orders bulk_shop \<and>
   order_items (bulk_shop\<lparr>order_seq := 12\<rparr>) = order_items bulk_shop"
  using failed_order_creation_leaves_no_trace [OF bulk_fails] bulk_fails by simp






text \<open>
  C7. The stock update of order creation writes \<open>stock_quantity\<close> only. Ordering the
  last two units of a product leaves it with stock 0 and \<open>is_available\<close> still true,
  whereas \<open>Product.decrease_stock\<close> on the same product and quantity clears the flag.
\<close>

theorem order_reserve_keeps_flag_at_zero:
  "fst (create_order_from_cart None [] 7 last_units) = Inr (11, 5100) \<and>
   products (snd (create_order_from_cart None [] 7 last_units)) 4 =
     Some \<lparr>p_name = ''Net'', price = 2550, stock_quantity = 0, is_available = True\<rparr> \<and>
   decrease_stock 2 net =
     (Inr (), \<lparr>p_name = ''Net'', price = 2550, stock_quantity = 0, is_available = False\<rparr>)"
  by (simp add: order_defs example_defs decrease_stock_def)

lemma validate_cart_empty: "user_cart_rows u s = [] \<Longrightarrow> validate_cart u s = (False, [CartEmpty])"
  by (simp add: validate_cart_def)

text \<open>
  C8. With no cart row of the buyer, \<open>create_order_from_cart\<close> raises the
  \<open>ValueError\<close> of the empty cart and the database is untouched, already before the
  transaction is rolled back.
\<close>

theorem empty_cart_rejected:
  "user_cart_rows u s = [] \<Longrightarrow>
     create_order_from_cart_body proc arrivals u s = (Inl (ValueError [CartEmpty]), s) \<and>
     create_order_from_cart proc arrivals u s = (Inl (ValueError [CartEmpty]), s)"
  by (simp add: create_order_from_cart_def create_order_from_cart_body_def atomic_def
        validate_cart_empty)

theorem empty_cart_rejected_witness:
  "user_cart_rows 9 shop = [] \<and>
   create_order_from_cart None [] 9 shop = (Inl (ValueError [CartEmpty]), shop)"
proof -
  have h: "user_cart_rows 9 shop = []"
    by (simp add: user_cart_rows_def example_defs)
  from empty_cart_rejected [OF h, of None "[]"] h show ?thesis by simp
qed

text \<open>
  C9, as the code has it. After a successful \<open>create_order_from_cart\<close> (Python
  implementation) the cart table holds exactly the rows of the other buyers, unchanged
  and in their order: every row of the buyer is deleted, those of the snapshot and those
  that arrived after it alike.
\<close>

theorem order_creation_clears_whole_cart:
  "create_order_from_cart None arrivals u s = (Inr r, s') \<Longrightarrow>
     cart_items s' = filter (\<lambda>c. ci_user c \<noteq> u) (arrivals @ cart_items s)"
  by (cases r) (auto dest!: service_ok_python simp: add_log_def python_ok)

lemma shop_late_order: "fst (create_order_from_cart None [late_line] 7 shop) = Inr (11, 200000)"
  by (simp add: order_defs example_defs)

theorem order_creation_clears_whole_cart_witness:
  "fst (create_order_from_cart None [late_line] 7 shop) = Inr (11, 200000) \<and>
   cart_items (snd (create_order_from_cart None [late_line] 7 shop)) =
     [\<lparr>ci_user = 8, ci_product = 4, ci_quantity = 1\<rparr>]"
proof -
  have h: "create_order_from_cart None [late_line] 7 shop =
      (Inr (11, 200000), snd (create_order_from_cart None [late_line] 7 shop))"
    by (simp add: prod_eq_iff shop_late_order)
  from order_creation_clears_whole_cart [OF h] shop_late_order show ?thesis
    by (simp add: example_defs)
qed

text \<open>
  C9 as stated fails: a row of the buyer that was committed after the snapshot is not in
  the order, and it is deleted from the cart all the same.
\<close>

theorem late_cart_line_is_dropped:
  "fst (create_order_from_cart None [late_line] 7 shop) = Inr (11, 200000) \<and>
   ci_user late_line = 7 \<and>
   late_line \<notin> set (map fst (get_cart 7 shop)) \<and>
   late_line \<notin> set (cart_items (snd (create_order_from_cart None [late_line] 7 shop)))"
  by (simp add: order_defs example_defs)

lemma line_errors_unavailable:
  "\<not> is_available product \<Longrightarrow> line_errors (item, product) = [ProductUnavailable (p_name product)]"
  by simp

lemma get_cart_rows: "line \<in> set (get_cart u s) \<Longrightarrow> user_cart_rows u s \<noteq> []"
  by (auto simp: get_cart_def List.map_filter_simps)

text \<open>
  C10. If some line of the buyer's cart is for a product whose \<open>is_available\<close> is false,
  \<open>create_order_from_cart\<close> raises a \<open>ValueError\<close> that names that product and the
  database is untouched. The stock of the product plays no part.
\<close>

theorem unavailable_product_blocks_order:
  assumes "(item, product) \<in> set (get_cart u s)" and "\<not> is_available product"
  shows "\<exists>errors. ProductUnavailable (p_name product) \<in> set errors \<and>
           create_order_from_cart_body proc arrivals u s = (Inl (ValueError errors), s) \<and>
           create_order_from_cart proc arrivals u s = (Inl (ValueError errors), s)"
proof -
  define errors where "errors = concat (map line_errors (get_cart u s))"
  from assms have mem: "ProductUnavailable (p_name product) \<in> set errors"
    unfolding errors_def by (force simp del: line_errors.simps simp add: line_errors_unavailable)
  then have ne: "errors \<noteq> []" by auto
  from assms(1) have rows: "user_cart_rows u s \<noteq> []" by (rule get_cart_rows)
  from rows ne have v: "validate_cart u s = (False, errors)"
    by (simp add: validate_cart_def errors_def Let_def)
  then have "create_order_from_cart_body proc arrivals u s = (Inl (ValueError errors), s)"
    by (simp add: create_order_from_cart_body_def)
  moreover from this have "create_order_from_cart proc arrivals u s = (Inl (ValueError errors), s)"
    by (simp add: create_order_from_cart_def atomic_def)
  ultimately show ?thesis using mem by blast
qed

theorem unavailable_product_blocks_order_witness:
  "(\<lparr>ci_user = 7, ci_product = 3, ci_quantity = 2\<rparr>, ball\<lparr>is_available := False\<rparr>)
      \<in> set (get_cart 7 withdrawn) \<and>
   ci_quantity \<lparr>ci_user = 7, ci_product = 3, ci_quantity = 2\<rparr>
      \<le> stock_quantity (ball\<lparr>is_available := False\<rparr>) \<and>
   create_order_from_cart None [] 7 withdrawn =
      (Inl (ValueError [ProductUnavailable ''Ball'']), withdrawn)"
proof -
  have h: "(\<lparr>ci_user = 7, ci_product = 3, ci_quantity = 2\<rparr>, ball\<lparr>is_available := False\<rparr>)
      \<in> set (get_cart 7 withdrawn)"
    by (simp add: get_cart_def user_cart_rows_def List.map_filter_simps example_defs)
  have "\<not> is_available (ball\<lparr>is_available := False\<rparr>)" by simp
  from unavailable_product_blocks_order [OF h this, of None "[]"] h show ?thesis
    by (simp add: order_defs example_defs)
qed

text \<open>
  C4. The reservation of order creation is not one step with its check. Product 3 has 10
  units and two buyers hold a cart line of 6 units each. Buyer 8's request has read its
  cart when buyer 7's order is committed, which leaves 4 units. Buyer 8's loop then finds
  the 10 units of its own read sufficient, succeeds, and writes 10 less 6: the
  reservation goes through with 4 units available, where it should fail and report 4,
  and the stock goes from 4 to 4 rather than down by 6, so that 12 units of 10 are sold.
\<close>

theorem stale_read_reserves_missing_stock:
  "get_cart 8 contested = [(\<lparr>ci_user = 8, ci_product = 3, ci_quantity = 6\<rparr>, ball)] \<and>
   stock_quantity ball = 10 \<and>
   fst (create_order_from_cart None [] 7 contested) = Inr (11, 600000) \<and>
   map_option stock_quantity
     (products (snd (create_order_from_cart None [] 7 contested)) 3) = Some 4 \<and>
   fst (order_lines 12 (get_cart 8 contested) 0
          (snd (create_order_from_cart None [] 7 contested))) = Inr 600000 \<and>
   map_option stock_quantity
     (products (snd (order_lines 12 (get_cart 8 contested) 0
                       (snd (create_order_from_cart None [] 7 contested)))) 3) = Some 4"
  by (simp add: order_defs example_defs)

section \<open>Payment: properties\<close>
















text \<open>
  Without the stored procedure a payment of a float-equal amount goes through whatever
  the status of the order is: the transaction takes the next id, is a Success, and the
  order becomes Completed.
\<close>

lemma create_payment_python:
  assumes "orders s oid = Some row"
    and "py_float amount = py_float (of_int (total_amount row) / 100)"
    and "transactions s (tx_seq s) = None"
  shows "create_payment None oid amount method s =
     (Inr (Some (tx_seq s), ''Success''),
      s\<lparr>tx_seq := Suc (tx_seq s),
        transactions := (transactions s)(tx_seq s \<mapsto>
           \<lparr>t_order = oid, t_amount = amount, payment_method = method, t_status = Tx_Success\<rparr>),
        orders := (orders s)(oid \<mapsto> row\<lparr>o_status := Completed\<rparr>),
        logs := logs s @ [\<lparr>level = INFO, action = ''payment_processed''\<rparr>]\<rparr>)"
  using assms
  by (simp add: create_payment_def create_payment_body_def atomic_def transactions_create_def
        add_log_def Let_def)





text \<open>
  C3. \<open>create_payment\<close> has no test of the order's status. For an order that is
  Completed and has a Success transaction (so \<open>can_be_paid\<close>, which the endpoint tests
  before it calls the service, is false), a further call with the right amount succeeds
  and adds a second Success transaction.
\<close>

theorem completed_order_is_paid_again:
  "orders paid_order 11 = Some \<lparr>o_user = 7, total_amount = 100000, o_status = Completed\<rparr> \<and>
   \<not> can_be_paid \<lparr>o_user = 7, total_amount = 100000, o_status = Completed\<rparr> \<and>
   map_option t_status (transactions paid_order 20) = Some Tx_Success \<and>
   fst (create_payment None 11 1000 ''Card'' paid_order) = Inr (Some 21, ''Success'') \<and>
   transactions (snd (create_payment None 11 1000 ''Card'' paid_order)) 20 =
     Some \<lparr>t_order = 11, t_amount = 1000, payment_method = ''Card'', t_status = Tx_Success\<rparr> \<and>
   transactions (snd (create_payment None 11 1000 ''Card'' paid_order)) 21 =
     Some \<lparr>t_order = 11, t_amount = 1000, payment_method = ''Card'', t_status = Tx_Success\<rparr>"
proof -
  have o: "orders paid_order 11 = Some \<lparr>o_user = 7, total_amount = 100000, o_status = Completed\<rparr>"
    "transactions paid_order (tx_seq paid_order) = None" "tx_seq paid_order = 21"
    "transactions paid_order 20 =
       Some \<lparr>t_order = 11, t_amount = 1000, payment_method = ''Card'', t_status = Tx_Success\<rparr>"
    by (simp_all add: example_defs)
  have "py_float 1000 =
      py_float (of_int (total_amount \<lparr>o_user = 7, total_amount = 100000, o_status = Completed\<rparr>) / 100)"
    by simp
  from create_payment_python [OF o(1) this o(2)] o show ?thesis
    by (simp add: can_be_paid_def)
qed

section \<open>Refund: properties\<close>

lemma fold_release_stock:
  "m pid = Some p \<Longrightarrow>
     \<exists>p'. fold release_stock items m pid = Some p' \<and>
          stock_quantity p' =
            stock_quantity p + (\<Sum>line\<leftarrow>filter (\<lambda>l. oi_product l = pid) items. oi_quantity line)"
proof (induction items arbitrary: m p)
  case Nil
  then show ?case by simp
next
  case (Cons line rest)
  show ?case
  proof (cases "oi_product line = pid")
    case True
    with Cons.prems have "release_stock line m pid = Some (increase_stock (oi_quantity line) p)"
      by (simp add: release_stock_def)
    from Cons.IH [of "release_stock line m" "increase_stock (oi_quantity line) p", OF this] True
    show ?thesis by (auto simp: increase_stock_def Let_def)
  next
    case False
    with Cons.prems have "release_stock line m pid = Some p"
      by (simp add: release_stock_def split: option.splits)
    from Cons.IH [of "release_stock line m" p, OF this] False show ?thesis by simp
  qed
qed

lemma refund_not_success:
  assumes "transactions s tid = Some tx" and "t_status tx \<noteq> Tx_Success"
  shows "refund_transaction refund_transaction_proc tid s =
           (Inl (ValueError [NotRefundable tid]), s)"
  using assms
  by (simp add: refund_transaction_def refund_transaction_body_def refund_transaction_proc_def
        atomic_def add_log_def rollback_def)

lemma refund_success:
  assumes "transactions s tid = Some tx" and "t_status tx = Tx_Success"
  shows "refund_transaction refund_transaction_proc tid s =
           (Inr ''refunded'',
            add_log INFO ''transaction_refunded''
              (s\<lparr>transactions := (transactions s)(tid \<mapsto> tx\<lparr>t_status := Tx_Refunded\<rparr>),
                 orders :=
                   (case orders s (t_order tx) of
                      None \<Rightarrow> orders s
                    | Some row \<Rightarrow> (orders s)(t_order tx \<mapsto> row\<lparr>o_status := Refunded\<rparr>)),
                 products :=
                   fold release_stock
                     (filter (\<lambda>line. oi_order line = t_order tx) (order_items s))
                     (products s)\<rparr>))"
  using assms
  by (simp add: refund_transaction_def refund_transaction_body_def refund_transaction_proc_def
        atomic_def)

text \<open>
  C6, on the procedure as the spec describes it. For an existing transaction the refund
  succeeds if and only if its status is Success; otherwise it fails as not refundable and
  the database is unchanged. On success the transaction is Refunded, its order is
  Refunded, and the stock of every product grows by the quantities of the lines of that
  order for this product; these effects come together or not at all.
\<close>

theorem refund_needs_success_and_restores_stock:
  assumes "transactions s tid = Some tx"
  shows "((\<exists>msg. fst (refund_transaction refund_transaction_proc tid s) = Inr msg)
            \<longleftrightarrow> can_be_refunded tx)
       \<and> (\<not> can_be_refunded tx \<longrightarrow>
            refund_transaction refund_transaction_proc tid s =
              (Inl (ValueError [NotRefundable tid]), s))
       \<and> (can_be_refunded tx \<longrightarrow>
            transactions (snd (refund_transaction refund_transaction_proc tid s)) tid =
              Some (tx\<lparr>t_status := Tx_Refunded\<rparr>)
          \<and> (\<forall>row. orders s (t_order tx) = Some row \<longrightarrow>
                orders (snd (refund_transaction refund_transaction_proc tid s)) (t_order tx) =
                  Some (row\<lparr>o_status := Refunded\<rparr>))
          \<and> (\<forall>pid p. products s pid = Some p \<longrightarrow>
                map_option stock_quantity
                  (products (snd (refund_transaction refund_transaction_proc tid s)) pid) =
                Some (stock_quantity p +
                  (\<Sum>line\<leftarrow>filter (\<lambda>l. oi_order l = t_order tx \<and> oi_product l = pid)
                            (order_items s). oi_quantity line))))"
proof (cases "t_status tx = Tx_Success")
  case False
  with assms show ?thesis by (simp add: refund_not_success can_be_refunded_def)
next
  case True
  note r = refund_success [OF assms True]
  have stock: "map_option stock_quantity
        (fold release_stock (filter (\<lambda>line. oi_order line = t_order tx) (order_items s))
           (products s) pid) =
      Some (stock_quantity p +
        (\<Sum>line\<leftarrow>filter (\<lambda>l. oi_order l = t_order tx \<and> oi_product l = pid)
                  (order_items s). oi_quantity line))"
    if "products s pid = Some p" for pid p
    using fold_release_stock [of "products s" pid p
        "filter (\<lambda>line. oi_order line = t_order tx) (order_items s)", OF that]
    by (auto simp: conj_commute)
  show ?thesis
    unfolding r using True stock by (simp add: add_log_def can_be_refunded_def)
qed

theorem refund_needs_success_and_restores_stock_witness:
  "transactions paid_order 20 =
     Some \<lparr>t_order = 11, t_amount = 1000, payment_method = ''Card'', t_status = Tx_Success\<rparr> \<and>
   fst (refund_transaction refund_transaction_proc 20 paid_order) = Inr ''refunded'' \<and>
   map_option t_status (transactions (snd (refund_transaction refund_transaction_proc 20 paid_order)) 20)
     = Some Tx_Refunded \<and>
   map_option o_status (orders (snd (refund_transaction refund_transaction_proc 20 paid_order)) 11)
     = Some Refunded \<and>
   map_option stock_quantity
     (products (snd (refund_transaction refund_transaction_proc 20 paid_order)) 3) = Some 10"
proof -
  have h: "transactions paid_order 20 =
     Some \<lparr>t_order = 11, t_amount = 1000, payment_method = ''Card'', t_status = Tx_Success\<rparr>"
    by (simp add: example_defs)
  have o: "orders paid_order 11 = Some \<lparr>o_user = 7, total_amount = 100000, o_status = Completed\<rparr>"
    and p: "products paid_order 3 = Some (ball\<lparr>stock_quantity := 8\<rparr>)"
    and i: "order_items paid_order = [\<lparr>oi_order = 11, oi_product = 3, oi_quantity = 2,
                               price_at_purchase = 50000\<rparr>]"
    by (simp_all add: example_defs)
  from refund_needs_success_and_restores_stock [OF h] h o p i show ?thesis
    by (simp add: refund_success [OF h] add_log_def release_stock_def increase_stock_def
          Let_def ball_def)
qed

end
